theory Spec2Isabelle
  imports Main "HOL-Library.AList"
begin

section \<open>JavaScript values used by the relay core\<close>

text \<open>
  The numbers that reach the layout arithmetic of \<^verbatim>\<open>StreamManager.ts\<close> are doubles.
  \<open>Fin n\<close> is the double whose value is the integer \<open>n\<close>; the operations below return
  it only for operands and results of magnitude below \<open>2^53\<close>, where every integer is a
  double and the quotient, the remainder and the product are computed without a rounding
  that could change them. \<open>Untracked\<close> stands for a double that this model does not
  determine: one read from a text that is not a digit string, one whose magnitude reaches
  \<open>2^53\<close>, or one computed from such a value. The sign of zero is not kept: it is
  invisible in the rendered text.
\<close>

datatype jsnum = Fin int | PosInf | NegInf | NaN | Untracked

definition exact :: "int \<Rightarrow> jsnum" where
  "exact n = (if \<bar>n\<bar> < 2 ^ 53 then Fin n else Untracked)"

text \<open>\<^verbatim>\<open>Math.floor(a / b)\<close> with an integer divisor.\<close>

fun floor_div :: "jsnum \<Rightarrow> int \<Rightarrow> jsnum" where
  "floor_div NaN b = NaN"
| "floor_div Untracked b = Untracked"
| "floor_div (Fin a) b =
     (if b = 0 then (if a > 0 then PosInf else if a < 0 then NegInf else NaN)
      else if \<bar>a\<bar> < 2 ^ 53 \<and> \<bar>b\<bar> < 2 ^ 53 then Fin (a div b)
      else Untracked)"
| "floor_div PosInf b = (if b < 0 then NegInf else PosInf)"
| "floor_div NegInf b = (if b < 0 then PosInf else NegInf)"

text \<open>\<^verbatim>\<open>a % b\<close> on integers: the remainder takes the sign of the dividend.\<close>

definition js_rem :: "int \<Rightarrow> int \<Rightarrow> jsnum" where
  "js_rem a b =
     (if b = 0 then NaN
      else if \<bar>a\<bar> < 2 ^ 53 \<and> \<bar>b\<bar> < 2 ^ 53 then Fin (sgn a * (\<bar>a\<bar> mod \<bar>b\<bar>))
      else Untracked)"

text \<open>\<^verbatim>\<open>a * b\<close>.\<close>

fun js_mul :: "jsnum \<Rightarrow> jsnum \<Rightarrow> jsnum" where
  "js_mul NaN b = NaN"
| "js_mul a NaN = NaN"
| "js_mul Untracked b = Untracked"
| "js_mul a Untracked = Untracked"
| "js_mul (Fin a) (Fin b) =
     (if \<bar>a\<bar> < 2 ^ 53 \<and> \<bar>b\<bar> < 2 ^ 53 then exact (a * b) else Untracked)"
| "js_mul PosInf (Fin b) = (if b > 0 then PosInf else if b < 0 then NegInf else NaN)"
| "js_mul NegInf (Fin b) = (if b > 0 then NegInf else if b < 0 then PosInf else NaN)"
| "js_mul (Fin a) PosInf = (if a > 0 then PosInf else if a < 0 then NegInf else NaN)"
| "js_mul (Fin a) NegInf = (if a > 0 then NegInf else if a < 0 then PosInf else NaN)"
| "js_mul PosInf PosInf = PosInf"
| "js_mul PosInf NegInf = NegInf"
| "js_mul NegInf PosInf = NegInf"
| "js_mul NegInf NegInf = PosInf"

subsection \<open>Rendering numbers in template strings\<close>

definition digit_char :: "nat \<Rightarrow> char" where
  "digit_char n = ''0123456789'' ! n"

function show_nat :: "nat \<Rightarrow> string" where
  "show_nat n = (if n < 10 then [digit_char n] else show_nat (n div 10) @ [digit_char (n mod 10)])"
  by pat_completeness auto
termination
  by (relation "measure (\<lambda>n. n)") auto

declare show_nat.simps [simp del]

definition show_int :: "int \<Rightarrow> string" where
  "show_int i = (if i < 0 then CHR ''-'' # show_nat (nat (- i)) else show_nat (nat i))"

text \<open>
  The text of a number in a template string; of an untracked number the text is not
  determined either.
\<close>

fun js_show :: "jsnum \<Rightarrow> string option" where
  "js_show (Fin a) = (if \<bar>a\<bar> < 2 ^ 53 then Some (show_int a) else None)"
| "js_show PosInf = Some ''Infinity''"
| "js_show NegInf = Some ''-Infinity''"
| "js_show NaN = Some ''NaN''"
| "js_show Untracked = None"

subsection \<open>Reading the resolution string\<close>

text \<open>\<^verbatim>\<open>s.split('x')\<close>: the pieces between the occurrences of the separator.\<close>

fun split_chr :: "char \<Rightarrow> string \<Rightarrow> string list" where
  "split_chr c [] = [[]]"
| "split_chr c (d # ds) =
     (if d = c then [] # split_chr c ds
      else (case split_chr c ds of p # ps \<Rightarrow> (d # p) # ps | [] \<Rightarrow> [[d]]))"

definition is_digit :: "char \<Rightarrow> bool" where
  "is_digit c = (c \<in> set ''0123456789'')"

definition digit_val :: "char \<Rightarrow> nat" where
  "digit_val c = of_char c - 48"

text \<open>
  \<^verbatim>\<open>Number(v)\<close> for one destructured piece of the resolution: a missing piece is
  \<^verbatim>\<open>undefined\<close> and reads as NaN, the empty string reads as 0, a digit string reads as
  its decimal value when that is below \<open>2^53\<close>. The \<^verbatim>\<open>createOutputStream\<close> schema
  admits only \<^verbatim>\<open>/^\d+x\d+$/\<close>, so both pieces are digit strings; what is read from a
  longer number or from a piece with any other character is not tracked.
\<close>

definition js_Number :: "string option \<Rightarrow> jsnum" where
  "js_Number v =
     (case v of
        None \<Rightarrow> NaN
      | Some s \<Rightarrow>
          if list_all is_digit s then exact (int (foldl (\<lambda>acc c. 10 * acc + digit_val c) 0 s))
          else Untracked)"

definition nth_opt :: "'a list \<Rightarrow> nat \<Rightarrow> 'a option" where
  "nth_opt xs i = (if i < length xs then Some (xs ! i) else None)"

section \<open>Stream manager: configuration and layout\<close>

record StreamMapping =
  inputStreamId :: int
  inputUrl :: string
  slotPosition :: int
  gridRows :: int
  gridCols :: int

record OutputStreamConfig =
  id_cfg :: int
  name :: string
  outputPort :: int
  resolution :: string
  framerate :: int
  bitrate :: string
  mappings :: "StreamMapping list"

text \<open>
  \<^verbatim>\<open>buildFilterComplex\<close> computes, for every mapping, the cell size (from the canvas
  and the grid of the first mapping) and the origin of the mapping's slot, and renders
  them into the filter text. The computed geometry is kept as a list of rectangles, one
  per mapping in query order, from which the text is rendered.
\<close>

record rect =
  rect_x :: jsnum
  rect_y :: jsnum
  rect_w :: jsnum
  rect_h :: jsnum

definition canvas :: "OutputStreamConfig \<Rightarrow> jsnum \<times> jsnum" where
  "canvas config =
     (let parts = split_chr CHR ''x'' (resolution config)
      in (js_Number (nth_opt parts 0), js_Number (nth_opt parts 1)))"

definition slot_rect :: "jsnum \<Rightarrow> jsnum \<Rightarrow> int \<Rightarrow> StreamMapping \<Rightarrow> rect" where
  "slot_rect cellWidth cellHeight cols mapping =
     (let row = floor_div (Fin (slotPosition mapping)) cols;
          col = js_rem (slotPosition mapping) cols
      in \<lparr>rect_x = js_mul col cellWidth, rect_y = js_mul row cellHeight,
          rect_w = cellWidth, rect_h = cellHeight\<rparr>)"

definition layout_rects :: "OutputStreamConfig \<Rightarrow> rect list" where
  "layout_rects config =
     (case mappings config of
        [] \<Rightarrow> []
      | m0 # _ \<Rightarrow>
          (let cellWidth = floor_div (fst (canvas config)) (gridCols m0);
               cellHeight = floor_div (snd (canvas config)) (gridRows m0)
           in map (slot_rect cellWidth cellHeight (gridCols m0)) (mappings config)))"

definition scale_filter :: "nat \<Rightarrow> rect \<Rightarrow> string option" where
  "scale_filter index r =
     (case js_show (rect_w r) of
        None \<Rightarrow> None
      | Some w \<Rightarrow>
          (case js_show (rect_h r) of
             None \<Rightarrow> None
           | Some h \<Rightarrow>
               Some (''['' @ show_nat index @ '':v]scale='' @ w @ '':'' @ h
                       @ '',setsar=1[v'' @ show_nat index @ ''];'')))"

definition layout_position :: "rect \<Rightarrow> string option" where
  "layout_position r =
     (case js_show (rect_x r) of
        None \<Rightarrow> None
      | Some x \<Rightarrow>
          (case js_show (rect_y r) of
             None \<Rightarrow> None
           | Some y \<Rightarrow> Some (x @ ''_'' @ y)))"

fun join :: "string \<Rightarrow> string list \<Rightarrow> string" where
  "join sep [] = []"
| "join sep [s] = s"
| "join sep (s # t # ts) = s @ sep @ join sep (t # ts)"

text \<open>
  The filter text, or the error of an empty mapping list. The text is \<open>None\<close> when one
  of its numbers is untracked.
\<close>

definition buildFilterComplex :: "OutputStreamConfig \<Rightarrow> string + string option" where
  "buildFilterComplex config =
     (if length (mappings config) = 0 then Inl ''No input streams provided''
      else
        (let rects = layout_rects config;
             indices = [0 ..< length (mappings config)];
             inputLabels = concat (map (\<lambda>i. ''[v'' @ show_nat i @ '']'') indices)
         in Inr (case those (map (\<lambda>i. scale_filter i (rects ! i)) indices) of
                   None \<Rightarrow> None
                 | Some scales \<Rightarrow>
                     (case those (map layout_position rects) of
                        None \<Rightarrow> None
                      | Some layoutPositions \<Rightarrow>
                          Some (concat scales @ inputLabels @ ''xstack=inputs=''
                                  @ show_nat (length (mappings config))
                                  @ '':layout='' @ join ''|'' layoutPositions @ ''[out]'')))))"

section \<open>Persistence\<close>

text \<open>
  The tables of \<^verbatim>\<open>schema.sql\<close> that the relay core reads and writes, each a list of
  rows keyed by its SERIAL primary key. The columns \<^verbatim>\<open>resolution\<close>,
  \<^verbatim>\<open>framerate\<close>, \<^verbatim>\<open>bitrate\<close> and \<^verbatim>\<open>status\<close> are taken as non-null (the
  create route and the column defaults always fill them). Loss of the database connection
  is not modelled: a query fails only through a constraint of the schema.
\<close>

record output_stream_row =
  name_os :: string
  layout_template_id :: "int option"
  output_port :: "int option"
  output_url :: "string option"
  resolution_os :: string
  framerate_os :: int
  bitrate_os :: string
  status :: string
  last_error :: "string option"

record layout_template_row =
  grid_rows :: int
  grid_cols :: int

record input_stream_row =
  name_is :: string
  rtsp_url :: string
  username :: "string option"
  password :: "string option"
  status_is :: string
  last_error_is :: "string option"

record stream_mapping_row =
  output_stream_id :: int
  input_stream_id :: int
  slot_position :: int

record database =
  output_streams :: "(int \<times> output_stream_row) list"
  layout_templates :: "(int \<times> layout_template_row) list"
  input_streams :: "(int \<times> input_stream_row) list"
  stream_mappings :: "stream_mapping_row list"

text \<open>
  \<^verbatim>\<open>SELECT os.*, lt.grid_rows, lt.grid_cols FROM output_streams os
  JOIN layout_templates lt ON os.layout_template_id = lt.id WHERE os.id = $1\<close>
\<close>

definition select_output_stream ::
  "database \<Rightarrow> int \<Rightarrow> (output_stream_row \<times> layout_template_row) list" where
  "select_output_stream d i =
     (case map_of (output_streams d) i of
        None \<Rightarrow> []
      | Some os \<Rightarrow>
          (case layout_template_id os of
             None \<Rightarrow> []
           | Some l \<Rightarrow>
               (case map_of (layout_templates d) l of
                  None \<Rightarrow> []
                | Some lt \<Rightarrow> [(os, lt)])))"

text \<open>
  \<^verbatim>\<open>SELECT ... FROM stream_mappings sm JOIN input_streams ist ON sm.input_stream_id = ist.id
  WHERE sm.output_stream_id = $1 ORDER BY sm.slot_position\<close>. The schema's
  \<^verbatim>\<open>UNIQUE(output_stream_id, slot_position)\<close> leaves no ties to the sort.
\<close>

definition join_input ::
  "database \<Rightarrow> int \<Rightarrow> stream_mapping_row \<Rightarrow> (stream_mapping_row \<times> input_stream_row) option" where
  "join_input d i sm =
     (if output_stream_id sm = i
      then (case map_of (input_streams d) (input_stream_id sm) of
              None \<Rightarrow> None
            | Some ist \<Rightarrow> Some (sm, ist))
      else None)"

definition select_mappings ::
  "database \<Rightarrow> int \<Rightarrow> (stream_mapping_row \<times> input_stream_row) list" where
  "select_mappings d i =
     sort_key (\<lambda>r. slot_position (fst r)) (List.map_filter (join_input d i) (stream_mappings d))"

definition update_output_stream ::
  "int \<Rightarrow> (output_stream_row \<Rightarrow> output_stream_row) \<Rightarrow> database \<Rightarrow> database" where
  "update_output_stream i f d =
     d\<lparr>output_streams := map (\<lambda>kr. if fst kr = i then (fst kr, f (snd kr)) else kr) (output_streams d)\<rparr>"

text \<open>
  \<^verbatim>\<open>UPDATE output_streams SET status = 'running', output_port = $2, output_url = $3
  WHERE id = $4\<close>. The column \<^verbatim>\<open>output_port INTEGER UNIQUE\<close> rejects the update when
  another row already holds the port; the message stands for the one PostgreSQL gives.
\<close>

definition port_taken :: "database \<Rightarrow> int \<Rightarrow> int \<Rightarrow> bool" where
  "port_taken d i port =
     list_ex (\<lambda>kr. fst kr \<noteq> i \<and> output_port (snd kr) = Some port) (output_streams d)"

definition set_running :: "database \<Rightarrow> int \<Rightarrow> int \<Rightarrow> string \<Rightarrow> string + database" where
  "set_running d i port url =
     (if map_of (output_streams d) i \<noteq> None \<and> port_taken d i port
      then Inl ''duplicate key value violates unique constraint output_streams_output_port_key''
      else Inr (update_output_stream i
                  (\<lambda>r. r\<lparr>status := ''running'', output_port := Some port, output_url := Some url\<rparr>) d))"

text \<open>\<^verbatim>\<open>UPDATE output_streams SET status = 'error', last_error = $2 WHERE id = $3\<close>\<close>

definition set_error :: "database \<Rightarrow> int \<Rightarrow> string \<Rightarrow> database" where
  "set_error d i msg =
     update_output_stream i (\<lambda>r. r\<lparr>status := ''error'', last_error := Some msg\<rparr>) d"

text \<open>\<^verbatim>\<open>UPDATE output_streams SET status = 'stopped' WHERE id = $2\<close>\<close>

definition set_stopped :: "database \<Rightarrow> int \<Rightarrow> database" where
  "set_stopped d i = update_output_stream i (\<lambda>r. r\<lparr>status := ''stopped''\<rparr>) d"

section \<open>Observers\<close>

text \<open>
  A message is kept as the JSON value handed to \<^verbatim>\<open>JSON.stringify\<close>; what a client
  has been sent is the list of these values, oldest first.
\<close>

datatype json = JNull | JNum int | JStr string | JArr "json list" | JObj "(string \<times> json) list"

datatype ready_state = CONNECTING | OPEN | CLOSING | CLOSED

record ws_client =
  userId :: int
  userRole :: string
  readyState :: ready_state
  sent :: "json list"

section \<open>The server state\<close>

text \<open>
  A child process keeps the configuration its handlers close over, its argument vector
  (not determined when the filter text is not),
  whether \<^verbatim>\<open>kill('SIGTERM')\<close> has been called on its handle and whether its
  \<^verbatim>\<open>close\<close> event has fired. Processes are numbered in spawn order; the registry
  \<^verbatim>\<open>activeStreams\<close> maps a job id to the number of its tracked process and keeps
  insertion order as a JavaScript \<^verbatim>\<open>Map\<close> does. Requests are taken one at a time:
  the interleaving of two requests at their \<^verbatim>\<open>await\<close> points is not modelled.
\<close>

record child_process =
  proc_config :: OutputStreamConfig
  spawnargs :: "string list option"
  sigterm :: bool
  exited :: bool

record server =
  db :: database
  activeStreams :: "(int \<times> nat) list"
  basePort :: int
  children :: "child_process list"
  clients :: "ws_client list"

subsection \<open>Port allocation\<close>

text \<open>
  \<^verbatim>\<open>Array.from(this.activeStreams.values()).map((_, id) => this.basePort + id)\<close>: the
  second argument of the callback is the array index.
\<close>

definition usedPorts :: "server \<Rightarrow> int list" where
  "usedPorts s = map (\<lambda>idx. basePort s + int idx) [0 ..< length (map snd (activeStreams s))]"

function port_scan :: "int \<Rightarrow> int list \<Rightarrow> nat \<Rightarrow> string + int" where
  "port_scan base used i =
     (if i < 1000
      then (if base + int i \<notin> set used then Inr (base + int i) else port_scan base used (i + 1))
      else Inl ''No available ports for output stream'')"
  by pat_completeness auto
termination
  by (relation "measure (\<lambda>(base, used, i). 1000 - i)") auto

declare port_scan.simps [simp del]

definition getNextAvailablePort :: "server \<Rightarrow> string + int" where
  "getNextAvailablePort s = port_scan (basePort s) (usedPorts s) 0"

text \<open>\<^verbatim>\<open>stream.output_port || this.getNextAvailablePort()\<close>: null and 0 are falsy.\<close>

definition choose_port :: "int option \<Rightarrow> (string + int) \<Rightarrow> string + int" where
  "choose_port persisted allocated =
     (case persisted of
        None \<Rightarrow> allocated
      | Some p \<Rightarrow> if p \<noteq> 0 then Inr p else allocated)"

subsection \<open>Building the configuration\<close>

text \<open>
  The WHATWG \<^verbatim>\<open>URL\<close> class is a parameter: given the base address, the user name and
  the password it returns the address with the credentials set, or nothing where
  \<^verbatim>\<open>new URL\<close> throws.
\<close>

type_synonym url_lib = "string \<Rightarrow> string \<Rightarrow> string \<Rightarrow> string option"

definition buildRtspUrl ::
  "url_lib \<Rightarrow> string \<Rightarrow> string option \<Rightarrow> string option \<Rightarrow> string + string" where
  "buildRtspUrl url baseUrl user pass =
     (case user of
        None \<Rightarrow> Inr baseUrl
      | Some u \<Rightarrow>
          (case pass of
             None \<Rightarrow> Inr baseUrl
           | Some p \<Rightarrow>
               if u = [] \<or> p = [] then Inr baseUrl
               else (case url baseUrl u p of None \<Rightarrow> Inl ''Invalid URL'' | Some a \<Rightarrow> Inr a)))"

fun build_mappings ::
  "url_lib \<Rightarrow> layout_template_row \<Rightarrow> (stream_mapping_row \<times> input_stream_row) list
     \<Rightarrow> string + StreamMapping list" where
  "build_mappings url lt [] = Inr []"
| "build_mappings url lt (row # rows) =
     (case buildRtspUrl url (rtsp_url (snd row)) (username (snd row)) (password (snd row)) of
        Inl e \<Rightarrow> Inl e
      | Inr a \<Rightarrow>
          (case build_mappings url lt rows of
             Inl e \<Rightarrow> Inl e
           | Inr ms \<Rightarrow>
               Inr (\<lparr>inputStreamId = input_stream_id (fst row), inputUrl = a,
                     slotPosition = slot_position (fst row),
                     gridRows = grid_rows lt, gridCols = grid_cols lt\<rparr> # ms)))"

text \<open>Lines 44 to 86 of \<^verbatim>\<open>startOutputStream\<close>: the two queries and the configuration.\<close>

definition build_config :: "url_lib \<Rightarrow> server \<Rightarrow> int \<Rightarrow> string + OutputStreamConfig" where
  "build_config url s i =
     (case select_output_stream (db s) i of
        [] \<Rightarrow> Inl ''Output stream not found''
      | (stream, lt) # _ \<Rightarrow>
          if length (select_mappings (db s) i) = 0
          then Inl ''No input streams mapped to this output''
          else
            (case choose_port (output_port stream) (getNextAvailablePort s) of
               Inl e \<Rightarrow> Inl e
             | Inr port \<Rightarrow>
                 (case build_mappings url lt (select_mappings (db s) i) of
                    Inl e \<Rightarrow> Inl e
                  | Inr ms \<Rightarrow>
                      Inr \<lparr>id_cfg = i, name = name_os stream, outputPort = port,
                           resolution = resolution_os stream, framerate = framerate_os stream,
                           bitrate = bitrate_os stream, mappings = ms\<rparr>)))"

subsection \<open>Launching and stopping\<close>

definition output_address :: "OutputStreamConfig \<Rightarrow> string" where
  "output_address config =
     ''rtsp://localhost:'' @ show_int (outputPort config) @ ''/'' @ name config"

text \<open>
  \<^verbatim>\<open>buildFFmpegProcess\<close>. Its first statement,
  \<^verbatim>\<open>const ffmpegPath = process.env.FFMPEG_PATH || 'ffmpeg'\<close>, reads \<^verbatim>\<open>process\<close>, but
  the body of the function declares its own \<^verbatim>\<open>const process = spawn(ffmpegPath, args)\<close>
  further down. The read lies in the temporal dead zone of that binding and throws a
  ReferenceError on every call, before the arguments are built, before \<^verbatim>\<open>spawn\<close> and
  before the \<^verbatim>\<open>close\<close> handler is installed. (Compiled down to \<^verbatim>\<open>var\<close> the read
  yields \<^verbatim>\<open>undefined\<close> and the access to \<^verbatim>\<open>env\<close> throws a TypeError: the function
  throws either way, with another message.) The statements after the first are kept as
  they are written.
\<close>

definition launch_error :: string where
  "launch_error = ''Cannot access 'process' before initialization''"

definition ffmpegPath :: "string + string" where
  "ffmpegPath = Inl launch_error"

definition ffmpeg_args :: "OutputStreamConfig \<Rightarrow> string \<Rightarrow> string list" where
  "ffmpeg_args config filterComplex =
     concat (map (\<lambda>m. [''-rtsp_transport'', ''tcp'', ''-i'', inputUrl m]) (mappings config))
     @ [''-filter_complex'', filterComplex, ''-map'', ''[out]'', ''-c:v'', ''libx264'',
        ''-preset'', ''ultrafast'', ''-tune'', ''zerolatency'', ''-b:v'', bitrate config,
        ''-r'', show_int (framerate config), ''-s'', resolution config, ''-f'', ''rtsp'',
        ''-rtsp_transport'', ''tcp'', output_address config]"

definition spawn :: "OutputStreamConfig \<Rightarrow> string list option \<Rightarrow> child_process" where
  "spawn config args = \<lparr>proc_config = config, spawnargs = args, sigterm = False, exited = False\<rparr>"

definition buildFFmpegProcess :: "OutputStreamConfig \<Rightarrow> string + child_process" where
  "buildFFmpegProcess config =
     (case ffmpegPath of
        Inl e \<Rightarrow> Inl e
      | Inr path \<Rightarrow>
          (case buildFilterComplex config of
             Inl e \<Rightarrow> Inl e
           | Inr filterComplex \<Rightarrow>
               Inr (spawn config (map_option (ffmpeg_args config) filterComplex))))"

definition stopOutputStream :: "server \<Rightarrow> int \<Rightarrow> server" where
  "stopOutputStream s i =
     (case map_of (activeStreams s) i of
        None \<Rightarrow> s
      | Some pid \<Rightarrow>
          s\<lparr>children := (children s)[pid := (children s ! pid)\<lparr>sigterm := True\<rparr>],
            activeStreams := AList.delete i (activeStreams s),
            db := set_stopped (db s) i\<rparr>)"

definition stopAllStreams :: "server \<Rightarrow> server" where
  "stopAllStreams s = foldl stopOutputStream s (map fst (activeStreams s))"

text \<open>
  The \<^verbatim>\<open>close\<close> handler installed by \<^verbatim>\<open>buildFFmpegProcess\<close>: it logs the exit code
  and deletes the registry entry of \<^verbatim>\<open>config.id\<close>. The event fires once, for a
  spawned process.
\<close>

definition on_close :: "server \<Rightarrow> nat \<Rightarrow> server" where
  "on_close s pid =
     (if pid < length (children s) \<and> \<not> exited (children s ! pid)
      then s\<lparr>children := (children s)[pid := (children s ! pid)\<lparr>exited := True\<rparr>],
             activeStreams := AList.delete (id_cfg (proc_config (children s ! pid))) (activeStreams s)\<rparr>
      else s)"

datatype outcome = Resolved | Rejected string

text \<open>The \<^verbatim>\<open>try\<close> block of \<^verbatim>\<open>startOutputStream\<close>, with the state it leaves.\<close>

definition start_try :: "url_lib \<Rightarrow> server \<Rightarrow> int \<Rightarrow> outcome \<times> server" where
  "start_try url s i =
     (case build_config url s i of
        Inl e \<Rightarrow> (Rejected e, s)
      | Inr config \<Rightarrow>
          (let s1 = (if map_of (activeStreams s) i \<noteq> None then stopOutputStream s i else s)
           in case buildFFmpegProcess config of
                Inl e \<Rightarrow> (Rejected e, s1)
              | Inr ffmpegProcess \<Rightarrow>
                  (let s2 = s1\<lparr>children := children s1 @ [ffmpegProcess],
                               activeStreams := AList.update i (length (children s1)) (activeStreams s1)\<rparr>
                   in case set_running (db s2) i (outputPort config) (output_address config) of
                        Inl e \<Rightarrow> (Rejected e, s2)
                      | Inr d \<Rightarrow> (Resolved, s2\<lparr>db := d\<rparr>))))"

text \<open>The \<^verbatim>\<open>catch\<close> block records the message on the job and rethrows.\<close>

definition startOutputStream :: "url_lib \<Rightarrow> server \<Rightarrow> int \<Rightarrow> outcome \<times> server" where
  "startOutputStream url s i =
     (case start_try url s i of
        (Resolved, s') \<Rightarrow> (Resolved, s')
      | (Rejected e, s') \<Rightarrow> (Rejected e, s'\<lparr>db := set_error (db s') i e\<rparr>))"

subsection \<open>Status broadcasting\<close>

definition broadcast :: "json \<Rightarrow> server \<Rightarrow> server" where
  "broadcast message s =
     s\<lparr>clients := map (\<lambda>client. if readyState client = OPEN
                                  then client\<lparr>sent := sent client @ [message]\<rparr> else client)
                       (clients s)\<rparr>"

definition json_opt :: "string option \<Rightarrow> json" where
  "json_opt v = (case v of None \<Rightarrow> JNull | Some t \<Rightarrow> JStr t)"

definition input_status :: "int \<times> input_stream_row \<Rightarrow> json" where
  "input_status kr =
     JObj [(''id'', JNum (fst kr)), (''name'', JStr (name_is (snd kr))),
           (''status'', JStr (status_is (snd kr))), (''last_error'', json_opt (last_error_is (snd kr)))]"

definition output_status :: "int \<times> output_stream_row \<Rightarrow> json" where
  "output_status kr =
     JObj [(''id'', JNum (fst kr)), (''name'', JStr (name_os (snd kr))),
           (''status'', JStr (status (snd kr))), (''last_error'', json_opt (last_error (snd kr))),
           (''output_url'', json_opt (output_url (snd kr)))]"

definition status_message :: "string \<Rightarrow> database \<Rightarrow> json" where
  "status_message now d =
     JObj [(''type'', JStr ''stream_status''),
           (''data'', JObj [(''inputStreams'', JArr (map input_status (input_streams d))),
                            (''outputStreams'', JArr (map output_status (output_streams d))),
                            (''timestamp'', JStr now)])]"

text \<open>One firing of the five-second timer of \<^verbatim>\<open>startStreamMonitoring\<close>.\<close>

definition monitor_tick :: "string \<Rightarrow> server \<Rightarrow> server" where
  "monitor_tick now s = broadcast (status_message now (db s)) s"

definition notifyStreamEvent ::
  "string \<Rightarrow> string \<Rightarrow> int \<Rightarrow> json \<Rightarrow> string \<Rightarrow> server \<Rightarrow> server" where
  "notifyStreamEvent eventType streamType streamId data now s =
     broadcast (JObj [(''type'', JStr ''stream_event''), (''eventType'', JStr eventType),
                      (''streamType'', JStr streamType), (''streamId'', JNum streamId),
                      (''data'', data), (''timestamp'', JStr now)]) s"

subsection \<open>Runs of the server\<close>

text \<open>
  The routes of \<^verbatim>\<open>streams.routes.ts\<close> insert and delete rows of the tables; none of
  them updates a job record. An edit by these collaborators replaces the database by one
  in which every job record is a record of the old table, unchanged, or a new record as
  \<^verbatim>\<open>INSERT\<close> creates it: without a port and with the default status.
\<close>

definition edit_ok :: "database \<Rightarrow> database \<Rightarrow> bool" where
  "edit_ok d d' =
     (distinct (map fst (output_streams d')) \<and>
      list_all (\<lambda>kr. case map_of (output_streams d) (fst kr) of
                       Some r \<Rightarrow> snd kr = r
                     | None \<Rightarrow> output_port (snd kr) = None \<and> status (snd kr) = ''stopped'')
               (output_streams d'))"

datatype event =
    StartRequest int
  | StopRequest int
  | StopAll
  | ProcessClosed nat
  | MonitorTick string
  | TablesEdited database

fun step :: "url_lib \<Rightarrow> server \<Rightarrow> event \<Rightarrow> server" where
  "step url s (StartRequest i) = snd (startOutputStream url s i)"
| "step url s (StopRequest i) = stopOutputStream s i"
| "step url s StopAll = stopAllStreams s"
| "step url s (ProcessClosed pid) = on_close s pid"
| "step url s (MonitorTick now) = monitor_tick now s"
| "step url s (TablesEdited d') = (if edit_ok (db s) d' then s\<lparr>db := d'\<rparr> else s)"

definition run :: "url_lib \<Rightarrow> server \<Rightarrow> event list \<Rightarrow> server" where
  "run url s evs = foldl (step url) s evs"

definition startup :: "database \<Rightarrow> int \<Rightarrow> ws_client list \<Rightarrow> server" where
  "startup d base cs = \<lparr>db = d, activeStreams = [], basePort = base, children = [], clients = cs\<rparr>"

subsection \<open>Creating a mapping\<close>




section \<open>Properties of states\<close>



definition json_field :: "string \<Rightarrow> json \<Rightarrow> json option" where
  "json_field k v = (case v of JObj kvs \<Rightarrow> map_of kvs k | _ \<Rightarrow> None)"

section \<open>An installation used in the examples\<close>

text \<open>
  Four jobs on one 2 by 2 template: \<open>wall\<close> with all four slots mapped, \<open>lobby\<close> and
  \<open>door\<close> with one each, \<open>spare\<close> with none. No camera carries credentials, so the
  \<^verbatim>\<open>URL\<close> class is never reached; it is instantiated by the function that always
  throws.
\<close>

definition example_url :: url_lib where
  "example_url = (\<lambda>baseUrl u p. None)"

definition camera :: "string \<Rightarrow> input_stream_row" where
  "camera n = \<lparr>name_is = n, rtsp_url = ''rtsp://10.0.0.1/'' @ n, username = None, password = None,
               status_is = ''connected'', last_error_is = None\<rparr>"

definition job_row :: "string \<Rightarrow> output_stream_row" where
  "job_row n = \<lparr>name_os = n, layout_template_id = Some 1, output_port = None, output_url = None,
               resolution_os = ''1920x1080'', framerate_os = 25, bitrate_os = ''2000k'',
               status = ''stopped'', last_error = None\<rparr>"

definition example_db :: database where
  "example_db =
     \<lparr>output_streams = [(1, job_row ''wall''), (2, job_row ''lobby''), (3, job_row ''spare''),
                        (4, job_row ''door'')],
      layout_templates = [(1, \<lparr>grid_rows = 2, grid_cols = 2\<rparr>)],
      input_streams = [(1, camera ''a''), (2, camera ''b''), (3, camera ''c''), (4, camera ''d'')],
      stream_mappings =
        [\<lparr>output_stream_id = 1, input_stream_id = 1, slot_position = 0\<rparr>,
         \<lparr>output_stream_id = 1, input_stream_id = 2, slot_position = 1\<rparr>,
         \<lparr>output_stream_id = 1, input_stream_id = 3, slot_position = 2\<rparr>,
         \<lparr>output_stream_id = 1, input_stream_id = 4, slot_position = 3\<rparr>,
         \<lparr>output_stream_id = 2, input_stream_id = 1, slot_position = 0\<rparr>,
         \<lparr>output_stream_id = 4, input_stream_id = 2, slot_position = 0\<rparr>]\<rparr>"

definition observer :: "int \<Rightarrow> ws_client" where
  "observer u = \<lparr>userId = u, userRole = ''viewer'', readyState = OPEN, sent = []\<rparr>"

definition example_server :: server where
  "example_server = startup example_db 8554 [observer 1, observer 2]"

definition grid_mapping :: "int \<Rightarrow> StreamMapping" where
  "grid_mapping slot =
     \<lparr>inputStreamId = slot + 1, inputUrl = ''rtsp://10.0.0.1/cam'', slotPosition = slot,
      gridRows = 2, gridCols = 2\<rparr>"

definition grid_config :: "int list \<Rightarrow> OutputStreamConfig" where
  "grid_config slots =
     \<lparr>id_cfg = 1, name = ''wall'', outputPort = 8554, resolution = ''1920x1080'',
      framerate = 25, bitrate = ''2000k'', mappings = map grid_mapping slots\<rparr>"

text \<open>
  The same installation with a job table in which \<open>wall\<close> carries port 8554 from an
  earlier assignment, started on base port 9000.
\<close>

definition restored_db :: database where
  "restored_db =
     update_output_stream 1
       (\<lambda>r. r\<lparr>output_port := Some 8554, output_url := Some ''rtsp://localhost:8554/wall''\<rparr>)
       example_db"

definition restored_server :: server where
  "restored_server = startup restored_db 9000 [observer 1, observer 2]"




section \<open>Evaluating the examples\<close>

text \<open>The definitions that the simplifier unfolds to evaluate the concrete examples.\<close>

lemmas example_defs = example_url_def camera_def job_row_def example_db_def observer_def
  example_server_def startup_def grid_mapping_def grid_config_def restored_db_def restored_server_def

lemmas layout_defs = buildFilterComplex_def layout_rects_def canvas_def nth_opt_def js_Number_def
  is_digit_def digit_val_def slot_rect_def js_rem_def exact_def scale_filter_def layout_position_def
  show_nat.simps show_int_def digit_char_def Let_def



section \<open>Layout geometry\<close>

text \<open>
  A resolution written as two decimal numbers around an \<open>x\<close>, which is what the
  \<^verbatim>\<open>createOutputStream\<close> schema admits, is read back as these two numbers when both
  are below \<open>2^53\<close>.
\<close>

lemma digit_char_props:
  "d < 10 \<Longrightarrow> is_digit (digit_char d) \<and> digit_char d \<noteq> CHR ''x'' \<and> digit_val (digit_char d) = d"
proof -
  assume "d < 10"
  then have "d \<in> set [0 ..< 10]"
    by simp
  then have "d = 0 \<or> d = 1 \<or> d = 2 \<or> d = 3 \<or> d = 4 \<or> d = 5 \<or> d = 6 \<or> d = 7 \<or> d = 8 \<or> d = 9"
    by (auto simp: upt_rec eval_nat_numeral)
  then consider "d = 0" | "d = 1" | "d = 2" | "d = 3" | "d = 4" | "d = 5" | "d = 6" | "d = 7"
    | "d = 8" | "d = 9"
    by blast
  then show ?thesis
    by cases (simp_all add: digit_char_def is_digit_def digit_val_def)
qed

lemma show_nat_digits:
  "list_all is_digit (show_nat n) \<and> CHR ''x'' \<notin> set (show_nat n) \<and>
   foldl (\<lambda>acc c. 10 * acc + digit_val c) 0 (show_nat n) = n"
proof (induction n rule: show_nat.induct)
  case (1 n)
  show ?case
  proof (cases "n < 10")
    case True
    then show ?thesis
      using digit_char_props [of n] by (subst (1 2 3) show_nat.simps) auto
  next
    case False
    have m: "n mod 10 < 10" by simp
    show ?thesis
      using False 1 [OF False] digit_char_props [OF m]
      by (subst (1 2 3) show_nat.simps) auto
  qed
qed

lemma split_chr_no_sep: "c \<notin> set a \<Longrightarrow> split_chr c a = [a]"
  by (induction a) auto

lemma split_chr_one_sep:
  "c \<notin> set a \<Longrightarrow> c \<notin> set b \<Longrightarrow> split_chr c (a @ c # b) = [a, b]"
  by (induction a) (auto simp: split_chr_no_sep)

lemma canvas_of_digits:
  assumes "resolution config = show_nat w @ ''x'' @ show_nat h"
    and "int w < 2 ^ 53" and "int h < 2 ^ 53"
  shows "canvas config = (Fin (int w), Fin (int h))"
proof -
  have "split_chr CHR ''x'' (resolution config) = [show_nat w, show_nat h]"
    using assms(1) show_nat_digits [of w] show_nat_digits [of h]
    by (simp add: split_chr_one_sep)
  then show ?thesis
    using assms(2,3) show_nat_digits [of w] show_nat_digits [of h]
    by (simp add: canvas_def nth_opt_def js_Number_def exact_def)
qed

text \<open>
  Bounds on the products of the layout arithmetic: a column offset never exceeds the
  width it divides, and a slot inside the grid lies in one of its rows.
\<close>

lemma div_below:
  fixes w n :: int
  assumes "0 \<le> w" and "0 < n"
  shows "0 \<le> w div n" and "w div n \<le> w"
proof -
  show "0 \<le> w div n"
    using assms by (simp add: pos_imp_zdiv_nonneg_iff)
  show "w div n \<le> w"
  proof (cases "w = 0")
    case True
    then show ?thesis by simp
  next
    case False
    then have "0 < w" using assms(1) by simp
    then show ?thesis by (rule int_div_le_self)
  qed
qed

lemma div_times_below:
  fixes w n :: int
  assumes "0 < n"
  shows "n * (w div n) \<le> w"
proof -
  have "n * (w div n) + w mod n = w"
    by (rule mult_div_mod_eq)
  moreover have "0 \<le> w mod n"
    using assms by simp
  ultimately show ?thesis
    by linarith
qed

lemma part_of_whole:
  fixes a n w :: int
  assumes "0 \<le> a" and "a \<le> n" and "0 < n" and "0 \<le> w"
  shows "0 \<le> a * (w div n)" and "a * (w div n) \<le> w"
proof -
  have q: "0 \<le> w div n"
    using div_below(1) [OF assms(4,3)] .
  show "0 \<le> a * (w div n)"
    using assms(1) q by simp
  have "a * (w div n) \<le> n * (w div n)"
    using assms(2) q by (rule mult_right_mono)
  also have "\<dots> \<le> w"
    using assms(3) by (rule div_times_below)
  finally show "a * (w div n) \<le> w" .
qed

lemma row_below:
  fixes s R C :: int
  assumes "0 < C" and "0 \<le> s" and "s < R * C"
  shows "0 \<le> s div C" and "s div C \<le> R - 1"
proof -
  show "0 \<le> s div C"
    using div_below(1) [OF assms(2,1)] .
  have "C * (s div C) \<le> s"
    using assms(1) by (rule div_times_below)
  then have "(s div C) * C < R * C"
    using assms(3) by (simp add: mult.commute)
  then have "s div C < R"
    using assms(1) by (simp add: mult_less_cancel_right)
  then show "s div C \<le> R - 1"
    by simp
qed

lemma slot_rect_in_grid:
  assumes "0 < C" and "C < 2 ^ 53" and "0 \<le> s" and "s < 2 ^ 53" and "slotPosition m = s"
    and "\<bar>cw\<bar> < 2 ^ 53" and "\<bar>ch\<bar> < 2 ^ 53"
    and "\<bar>(s mod C) * cw\<bar> < 2 ^ 53" and "\<bar>(s div C) * ch\<bar> < 2 ^ 53"
  shows "slot_rect (Fin cw) (Fin ch) C m =
    \<lparr>rect_x = Fin ((s mod C) * cw), rect_y = Fin ((s div C) * ch), rect_w = Fin cw, rect_h = Fin ch\<rparr>"
proof -
  have m: "0 \<le> s mod C" "s mod C < C" "0 \<le> s div C" "s div C \<le> s"
    using assms(1) div_below [OF assms(3,1)] by simp_all
  then have b: "\<bar>s mod C\<bar> < 2 ^ 53" "\<bar>s div C\<bar> < 2 ^ 53"
    using assms(2,4) by linarith+
  have r: "js_rem s C = Fin (s mod C)"
    using assms(1,2,3,4) by (simp add: js_rem_def sgn_if)
  have d: "floor_div (Fin s) C = Fin (s div C)"
    using assms(1,2,3,4) by simp
  show ?thesis
    using assms(5,6,7,8,9) b r d by (simp add: slot_rect_def Let_def exact_def)
qed

text \<open>
  C1. On a grid of \<open>R\<close> rows and \<open>C\<close> columns (both at least 1) and a canvas of
  \<open>W\<close> by \<open>H\<close>, the rectangle that the filter builder computes for a mapping with
  slot \<open>s\<close>, \<open>0 \<le> s < R * C\<close>, has width \<open>W div C\<close>, height \<open>H div R\<close> and origin
  \<open>((s mod C) * (W div C), (s div C) * (H div R))\<close>. The canvas, the grid and the slot
  are non-negative integers below \<open>2^53\<close>, the range in which the doubles of the code
  are these integers. The witness is the scenario of the 2 by 2 grid on 1920 by 1080
  with slots 0 to 3.
\<close>

theorem layout_rect_of_slot:
  assumes "canvas config = (Fin W, Fin H)"
    and "0 \<le> W" and "W < 2 ^ 53" and "0 \<le> H" and "H < 2 ^ 53"
    and "mappings config = m0 # ms"
    and "gridRows m0 = R" and "gridCols m0 = C"
    and "1 \<le> R" and "R < 2 ^ 53" and "1 \<le> C" and "C < 2 ^ 53"
    and "i < length (mappings config)"
    and "slotPosition (mappings config ! i) = s" and "0 \<le> s" and "s < R * C" and "s < 2 ^ 53"
  shows "layout_rects config ! i =
           \<lparr>rect_x = Fin ((s mod C) * (W div C)), rect_y = Fin ((s div C) * (H div R)),
            rect_w = Fin (W div C), rect_h = Fin (H div R)\<rparr>"
proof -
  have C0: "0 < C" and R0: "0 < R"
    using assms(9,11) by simp_all
  have wq: "0 \<le> W div C" "W div C \<le> W" and hq: "0 \<le> H div R" "H div R \<le> H"
    using div_below [OF assms(2) C0] div_below [OF assms(4) R0] by simp_all
  have cw: "floor_div (fst (canvas config)) (gridCols m0) = Fin (W div C)"
    using assms(1,2,3,8,11,12) by simp
  have ch: "floor_div (snd (canvas config)) (gridRows m0) = Fin (H div R)"
    using assms(1,4,5,7,9,10) by simp
  have "layout_rects config = map (slot_rect (Fin (W div C)) (Fin (H div R)) C) (mappings config)"
    using assms(6,8) cw ch by (simp add: layout_rects_def Let_def del: floor_div.simps)
  then have nth: "layout_rects config ! i = slot_rect (Fin (W div C)) (Fin (H div R)) C (mappings config ! i)"
    using assms(13) by simp
  have col: "0 \<le> s mod C" "s mod C \<le> C"
    using C0 by (simp_all add: less_imp_le)
  have x: "0 \<le> (s mod C) * (W div C)" "(s mod C) * (W div C) \<le> W"
    using part_of_whole [OF col C0 assms(2)] by simp_all
  have row: "0 \<le> s div C" "s div C \<le> R"
    using row_below [OF C0 assms(15,16)] by simp_all
  have y: "0 \<le> (s div C) * (H div R)" "(s div C) * (H div R) \<le> H"
    using part_of_whole [OF row R0 assms(4)] by simp_all
  have "slot_rect (Fin (W div C)) (Fin (H div R)) C (mappings config ! i) =
          \<lparr>rect_x = Fin ((s mod C) * (W div C)), rect_y = Fin ((s div C) * (H div R)),
           rect_w = Fin (W div C), rect_h = Fin (H div R)\<rparr>"
    using wq hq x y assms(3,5)
    by (intro slot_rect_in_grid [OF C0 assms(12) assms(15) assms(17) assms(14)]) linarith+
  then show ?thesis
    using nth by simp
qed

theorem layout_rect_of_slot_witness:
  "layout_rects (grid_config [0, 1, 2, 3]) ! 0 =
     \<lparr>rect_x = Fin 0, rect_y = Fin 0, rect_w = Fin 960, rect_h = Fin 540\<rparr> \<and>
   layout_rects (grid_config [0, 1, 2, 3]) ! 1 =
     \<lparr>rect_x = Fin 960, rect_y = Fin 0, rect_w = Fin 960, rect_h = Fin 540\<rparr> \<and>
   layout_rects (grid_config [0, 1, 2, 3]) ! 2 =
     \<lparr>rect_x = Fin 0, rect_y = Fin 540, rect_w = Fin 960, rect_h = Fin 540\<rparr> \<and>
   layout_rects (grid_config [0, 1, 2, 3]) ! 3 =
     \<lparr>rect_x = Fin 960, rect_y = Fin 540, rect_w = Fin 960, rect_h = Fin 540\<rparr> \<and>
   length (layout_rects (grid_config [0, 1, 2, 3])) = 4"
proof -
  let ?c = "grid_config [0, 1, 2, 3]"
  have cv: "canvas ?c = (Fin 1920, Fin 1080)"
    by (simp add: example_defs layout_defs)
  have ms: "mappings ?c = grid_mapping 0 # map grid_mapping [1, 2, 3]"
    by (simp add: grid_config_def)
  have len: "length (layout_rects ?c) = 4"
    by (simp add: layout_rects_def grid_config_def Let_def)
  have r0: "layout_rects ?c ! 0 = \<lparr>rect_x = Fin 0, rect_y = Fin 0, rect_w = Fin 960, rect_h = Fin 540\<rparr>"
    using layout_rect_of_slot [where config = ?c and W = 1920 and H = 1080 and R = 2 and C = 2
        and i = 0 and s = 0, OF cv _ _ _ _ ms]
    by (simp add: grid_config_def grid_mapping_def)
  have r1: "layout_rects ?c ! 1 = \<lparr>rect_x = Fin 960, rect_y = Fin 0, rect_w = Fin 960, rect_h = Fin 540\<rparr>"
    using layout_rect_of_slot [where config = ?c and W = 1920 and H = 1080 and R = 2 and C = 2
        and i = 1 and s = 1, OF cv _ _ _ _ ms]
    by (simp add: grid_config_def grid_mapping_def)
  have r2: "layout_rects ?c ! 2 = \<lparr>rect_x = Fin 0, rect_y = Fin 540, rect_w = Fin 960, rect_h = Fin 540\<rparr>"
    using layout_rect_of_slot [where config = ?c and W = 1920 and H = 1080 and R = 2 and C = 2
        and i = 2 and s = 2, OF cv _ _ _ _ ms]
    by (simp add: grid_config_def grid_mapping_def)
  have r3: "layout_rects ?c ! 3 = \<lparr>rect_x = Fin 960, rect_y = Fin 540, rect_w = Fin 960, rect_h = Fin 540\<rparr>"
    using layout_rect_of_slot [where config = ?c and W = 1920 and H = 1080 and R = 2 and C = 2
        and i = 3 and s = 3, OF cv _ _ _ _ ms]
    by (simp add: grid_config_def grid_mapping_def)
  show ?thesis
    using r0 r1 r2 r3 len by simp
qed

text \<open>The filter text of the same scenario, as \<^verbatim>\<open>buildFilterComplex\<close> returns it.\<close>

lemma scenario_filter:
  "buildFilterComplex (grid_config [0, 1, 2, 3]) =
     Inr (Some ''[0:v]scale=960:540,setsar=1[v0];[1:v]scale=960:540,setsar=1[v1];[2:v]scale=960:540,setsar=1[v2];[3:v]scale=960:540,setsar=1[v3];[v0][v1][v2][v3]xstack=inputs=4:layout=0_0|960_0|0_540|960_540[out]'')"
  by (simp add: example_defs layout_defs upt_rec)




section \<open>Port allocation\<close>



section \<open>Starting and stopping\<close>

lemma build_mappings_length:
  "build_mappings url lt rows = Inr ms \<Longrightarrow> length ms = length rows"
  by (induction rows arbitrary: ms) (auto split: sum.splits)

lemma build_config_Inr:
  assumes "build_config url s i = Inr config"
  shows "mappings config \<noteq> []" and "id_cfg config = i"
  using assms build_mappings_length
  by (fastforce simp: build_config_def split: list.splits if_splits sum.splits)+

lemma stop_untracked: "map_of (activeStreams s) i = None \<Longrightarrow> stopOutputStream s i = s"
  by (simp add: stopOutputStream_def)

lemma stop_fields:
  "length (children (stopOutputStream s i)) = length (children s)"
  "clients (stopOutputStream s i) = clients s"
  "basePort (stopOutputStream s i) = basePort s"
  "activeStreams (stopOutputStream s i) = AList.delete i (activeStreams s)"
  by (auto simp: stopOutputStream_def AList.delete_id map_of_eq_None_iff split: option.splits)

lemma stop_if_tracked:
  "(if map_of (activeStreams s) i \<noteq> None then stopOutputStream s i else s) = stopOutputStream s i"
  by (simp add: stop_untracked)


text \<open>
  The launch throws for every configuration, so a start request whose configuration
  loads stops the tracked process of the job, if there is one, and is then rejected
  with the error of the launch: nothing is spawned or registered, and the
  \<^verbatim>\<open>running\<close> update is not reached.
\<close>

lemma launch_throws: "buildFFmpegProcess config = Inl launch_error"
  by (simp add: buildFFmpegProcess_def ffmpegPath_def)

lemma start_try_eq:
  "start_try url s i =
     (case build_config url s i of
        Inl e \<Rightarrow> (Rejected e, s)
      | Inr config \<Rightarrow> (Rejected launch_error, stopOutputStream s i))"
  unfolding start_try_def stop_if_tracked
  by (simp add: launch_throws Let_def split: sum.splits)

lemma startOutputStream_eq:
  "startOutputStream url s i =
     (case build_config url s i of
        Inl e \<Rightarrow> (Rejected e, s\<lparr>db := set_error (db s) i e\<rparr>)
      | Inr config \<Rightarrow>
          (Rejected launch_error,
           (stopOutputStream s i)\<lparr>db := set_error (db (stopOutputStream s i)) i launch_error\<rparr>))"
  by (simp add: startOutputStream_def start_try_eq split: sum.splits)


lemma start_fields:
  "activeStreams (snd (startOutputStream url s i)) = AList.delete i (activeStreams s) \<or>
   activeStreams (snd (startOutputStream url s i)) = activeStreams s"
  "length (children (snd (startOutputStream url s i))) = length (children s)"
  "basePort (snd (startOutputStream url s i)) = basePort s"
  "clients (snd (startOutputStream url s i)) = clients s"
  by (simp_all add: startOutputStream_eq stop_fields split: sum.splits)

subsection \<open>Start requests\<close>

text \<open>
  C7. For a job that exists (its record joins with its layout template) and has no
  mapped slot, \<^verbatim>\<open>startOutputStream\<close> is rejected with the message
  \<^verbatim>\<open>No input streams mapped to this output\<close>. The state it leaves differs from the one
  it was given only in the job table, where the job's status is \<open>error\<close> and its
  last error is the message: the registry and the processes are the same (nothing was
  spawned), and no record's port or address has changed (no endpoint was acquired).
\<close>

theorem start_without_mappings:
  assumes "select_output_stream (db s) i \<noteq> []" and "select_mappings (db s) i = []"
  shows "startOutputStream url s i =
           (Rejected ''No input streams mapped to this output'',
            s\<lparr>db := set_error (db s) i ''No input streams mapped to this output''\<rparr>) \<and>
         map (\<lambda>kr. (fst kr, output_port (snd kr), output_url (snd kr)))
             (output_streams (set_error (db s) i ''No input streams mapped to this output'')) =
         map (\<lambda>kr. (fst kr, output_port (snd kr), output_url (snd kr))) (output_streams (db s))"
proof -
  have "start_try url s i = (Rejected ''No input streams mapped to this output'', s)"
    using assms by (simp add: start_try_def build_config_def split: list.splits)
  then show ?thesis
    by (simp add: startOutputStream_def set_error_def update_output_stream_def)
qed

theorem start_without_mappings_witness:
  "select_output_stream (db example_server) 3 \<noteq> [] \<and> select_mappings (db example_server) 3 = [] \<and>
   startOutputStream example_url example_server 3 =
     (Rejected ''No input streams mapped to this output'',
      example_server\<lparr>db := set_error example_db 3 ''No input streams mapped to this output''\<rparr>) \<and>
   activeStreams (snd (startOutputStream example_url example_server 3)) = [] \<and>
   children (snd (startOutputStream example_url example_server 3)) = []"
proof -
  have a: "select_output_stream (db example_server) 3 \<noteq> []"
    by (simp add: example_defs select_output_stream_def)
  have b: "select_mappings (db example_server) 3 = []"
    by (simp add: example_defs select_mappings_def join_input_def List.map_filter_def)
  have c: "db example_server = example_db" "activeStreams example_server = []" "children example_server = []"
    by (simp_all add: example_server_def startup_def)
  show ?thesis
    using a b c start_without_mappings [OF a b, of example_url] by simp
qed

subsection \<open>Stop requests\<close>

text \<open>
  C9. For a job id with no tracked process \<^verbatim>\<open>stopOutputStream\<close> returns the state
  it was given: no handle is signalled, the registry is the same, and no column of any
  job record changes.
\<close>

theorem stop_without_live_process:
  "map_of (activeStreams s) i = None \<Longrightarrow> stopOutputStream s i = s"
  by (simp add: stopOutputStream_def)

theorem stop_without_live_process_witness:
  "map_of (activeStreams example_server) 1 = None \<and> stopOutputStream example_server 1 = example_server"
  using stop_without_live_process [of example_server 1]
  by (simp add: example_server_def startup_def)

section \<open>Status broadcasting\<close>

lemma broadcast_clients:
  "clients (broadcast m s) =
     map (\<lambda>c. if readyState c = OPEN then c\<lparr>sent := sent c @ [m]\<rparr> else c) (clients s)"
  by (simp add: broadcast_def)

text \<open>
  C8, as stated, fails. The message of a tick has the type \<^verbatim>\<open>stream_status\<close> and
  carries its content under \<^verbatim>\<open>data\<close>; it has no field \<^verbatim>\<open>inputs\<close>,
  \<^verbatim>\<open>outputs\<close> or \<^verbatim>\<open>timestamp\<close> at its top level.
\<close>

theorem snapshot_shape_counterexample:
  "map sent (clients (monitor_tick ''2026-01-01T00:00:00.000Z'' example_server)) =
     [[status_message ''2026-01-01T00:00:00.000Z'' example_db],
      [status_message ''2026-01-01T00:00:00.000Z'' example_db]] \<and>
   json_field ''type'' (status_message ''2026-01-01T00:00:00.000Z'' example_db) = Some (JStr ''stream_status'') \<and>
   json_field ''inputs'' (status_message ''2026-01-01T00:00:00.000Z'' example_db) = None \<and>
   json_field ''outputs'' (status_message ''2026-01-01T00:00:00.000Z'' example_db) = None \<and>
   json_field ''timestamp'' (status_message ''2026-01-01T00:00:00.000Z'' example_db) = None"
  by (simp add: monitor_tick_def broadcast_def status_message_def json_field_def
        example_server_def startup_def observer_def)

text \<open>
  C8, as amended. On a tick of the monitor every registered client whose socket is open
  is sent one message \<^verbatim>\<open>{type: "stream_status", data: {inputStreams, outputStreams,
  timestamp}}\<close> built from all rows of the two tables; a client whose socket is not open
  is sent nothing; nothing else in the state changes.
\<close>

theorem monitor_tick_sends_status:
  "length (clients (monitor_tick now s)) = length (clients s) \<and>
   (\<forall>k < length (clients s).
      clients (monitor_tick now s) ! k =
        (if readyState (clients s ! k) = OPEN
         then (clients s ! k)\<lparr>sent := sent (clients s ! k) @
                [JObj [(''type'', JStr ''stream_status''),
                       (''data'', JObj [(''inputStreams'', JArr (map input_status (input_streams (db s)))),
                                        (''outputStreams'', JArr (map output_status (output_streams (db s)))),
                                        (''timestamp'', JStr now)])]]\<rparr>
         else clients s ! k)) \<and>
   db (monitor_tick now s) = db s \<and>
   activeStreams (monitor_tick now s) = activeStreams s \<and>
   children (monitor_tick now s) = children s"
  by (simp add: monitor_tick_def broadcast_def status_message_def)

theorem monitor_tick_sends_status_witness:
  "sent (clients (monitor_tick ''2026-01-01T00:00:00.000Z'' example_server) ! 1) =
     [JObj [(''type'', JStr ''stream_status''),
            (''data'', JObj [(''inputStreams'', JArr (map input_status (input_streams example_db))),
                             (''outputStreams'', JArr (map output_status (output_streams example_db))),
                             (''timestamp'', JStr ''2026-01-01T00:00:00.000Z'')])]]"
proof -
  have c: "clients example_server = [observer 1, observer 2]" "db example_server = example_db"
    by (simp_all add: example_server_def startup_def)
  have "clients (monitor_tick ''2026-01-01T00:00:00.000Z'' example_server) ! 1 =
        (if readyState (clients example_server ! 1) = OPEN
         then (clients example_server ! 1)\<lparr>sent := sent (clients example_server ! 1) @
                [JObj [(''type'', JStr ''stream_status''),
                       (''data'', JObj [(''inputStreams'', JArr (map input_status (input_streams (db example_server)))),
                                        (''outputStreams'', JArr (map output_status (output_streams (db example_server)))),
                                        (''timestamp'', JStr ''2026-01-01T00:00:00.000Z'')])]]\<rparr>
         else clients example_server ! 1)"
    using monitor_tick_sends_status [of "''2026-01-01T00:00:00.000Z''" example_server]
    by (simp add: c)
  then show ?thesis
    by (simp add: c observer_def)
qed

section \<open>The job table\<close>

subsection \<open>The unique-port constraint is kept\<close>















section \<open>Reachable states\<close>

text \<open>
  The states of the server are those reached from \<^verbatim>\<open>startup\<close> by a run of events.
  Since the launch throws, no event ever adds a process or a registry entry: the
  registry and the list of processes are empty in every one of them, and the allocator
  returns the base port.
\<close>

lemma stopAll_idle: "activeStreams s = [] \<Longrightarrow> stopAllStreams s = s"
  by (simp add: stopAllStreams_def)

lemma idle_step:
  assumes "activeStreams s = []" and "children s = []"
  shows "activeStreams (step url s ev) = [] \<and> children (step url s ev) = []"
proof (cases ev)
  case (StartRequest i)
  have "activeStreams (snd (startOutputStream url s i)) = []"
    using start_fields(1) [of url s i] assms(1) by auto
  moreover have "children (snd (startOutputStream url s i)) = []"
    using start_fields(2) [of url s i] assms(2) by simp
  ultimately show ?thesis
    using StartRequest by simp
next
  case (StopRequest i)
  then show ?thesis
    using assms by (simp add: stop_untracked)
next
  case StopAll
  then show ?thesis
    using assms by (simp add: stopAll_idle)
next
  case (ProcessClosed pid)
  then show ?thesis
    using assms by (simp add: on_close_def)
next
  case (MonitorTick now)
  then show ?thesis
    using assms by (simp add: monitor_tick_def broadcast_def)
next
  case (TablesEdited d')
  then show ?thesis
    using assms by simp
qed

lemma idle_run:
  "activeStreams s = [] \<Longrightarrow> children s = [] \<Longrightarrow>
     activeStreams (run url s evs) = [] \<and> children (run url s evs) = []"
proof (induction evs arbitrary: s)
  case Nil
  then show ?case by (simp add: run_def)
next
  case (Cons ev evs)
  have "activeStreams (step url s ev) = [] \<and> children (step url s ev) = []"
    using idle_step [OF Cons.prems] .
  then have "activeStreams (run url (step url s ev) evs) = [] \<and> children (run url (step url s ev) evs) = []"
    using Cons.IH by blast
  then show ?case
    by (simp add: run_def)
qed

lemma idle_reachable:
  "activeStreams (run url (startup d base cs) evs) = []"
  "children (run url (startup d base cs) evs) = []"
  using idle_run [of "startup d base cs" url evs] by (simp_all add: startup_def)






text \<open>
  No \<^verbatim>\<open>close\<close> event is ever handled: there is no spawned process whose handler
  could run.
\<close>

lemma close_event_unhandled:
  "on_close (run url (startup d base cs) evs) pid = run url (startup d base cs) evs"
  by (simp add: on_close_def idle_reachable)


subsection \<open>Ports of live jobs\<close>



subsection \<open>Starting a job again\<close>



subsection \<open>Successive allocations\<close>


section \<open>Persisted ports\<close>









end
